theory Spec2Isabelle
  imports Main
begin

section \<open>Layout constants (src/constants/layout.ts)\<close>

text \<open>
  The exported constants are strings; a template literal is the concatenation of its
  pieces.
\<close>

definition LAYOUT_HEADER_HEIGHT :: string where
  "LAYOUT_HEADER_HEIGHT = ''75px''"

definition MOBILE_LAYOUT_HEADER_HEIGHT :: string where
  "MOBILE_LAYOUT_HEADER_HEIGHT = ''64px''"

definition LAYOUT_FOOTER_HEIGHT :: string where
  "LAYOUT_FOOTER_HEIGHT = ''143px''"

definition MOBILE_LAYOUT_FOOTER_HEIGHT :: string where
  "MOBILE_LAYOUT_FOOTER_HEIGHT = ''132.5px''"

definition FULL_SCREEN_HEIGHT :: string where
  "FULL_SCREEN_HEIGHT =
     ''calc(100vh - '' @ LAYOUT_HEADER_HEIGHT @ '' - '' @ LAYOUT_FOOTER_HEIGHT @ '')''"

definition MOBILE_FULL_SCREEN_HEIGHT :: string where
  "MOBILE_FULL_SCREEN_HEIGHT =
     ''calc(100vh - '' @ MOBILE_LAYOUT_HEADER_HEIGHT @ '' - '' @ MOBILE_LAYOUT_FOOTER_HEIGHT @ '')''"

definition PAGE_MIN_HEIGHT :: "string list" where
  "PAGE_MIN_HEIGHT = [MOBILE_FULL_SCREEN_HEIGHT, MOBILE_FULL_SCREEN_HEIGHT]"

section \<open>The wallet dropdown (src/components/WalletToolkit/WalletDropdown.tsx)\<close>

subsection \<open>Styles: \<open>useStyles\<close>\<close>

text \<open>
  A class produced by \<open>makeStyles\<close> is represented by its declarations. The style
  object reads three colours of the theme (\<open>theme.vars.palette\<close>), which this
  repository does not define: they are a parameter.
\<close>

datatype css_value = Str string | Num int

type_synonym css = "(string \<times> css_value) list"

record palette =
  primary_contrastText :: string
  themeBackground_normal :: string
  text_primary :: string

record classes =
  button :: css
  connectButton :: css
  endIcon :: css
  reverseEndIcon :: css
  paper :: css
  list :: css
  listItem :: css
  listItemIcon :: css
  listItemText :: css

definition useStyles :: "palette \<Rightarrow> bool \<Rightarrow> classes" where
  "useStyles theme dark =
     \<lparr> button =
         [(''fontSize'', Str ''1.6rem''),
          (''height'', Str ''3.6rem''),
          (''padding'', Str ''0 1.2rem''),
          (''borderRadius'', Str ''0.5rem''),
          (''border'',
             Str (if dark then ''1px solid '' @ primary_contrastText theme else ''none'')),
          (''backgroundColor'',
             Str (if dark then ''unset'' else themeBackground_normal theme)),
          (''color'', Str (if dark then primary_contrastText theme else ''#473835'')),
          (''whiteSpace'', Str ''nowrap'')],
       connectButton =
         [(''backgroundColor'', Str ''#FF684B''),
          (''color'', Str (primary_contrastText theme)),
          (''border'', Str ''none''),
          (''fontSize'', Str ''1.8rem''),
          (''fontWeight'', Num 500)],
       endIcon =
         [(''fontSize'', Str ''1.6rem''),
          (''marginLeft'', Str ''0.8rem''),
          (''color'', Str (if dark then primary_contrastText theme else ''#473835'')),
          (''willChange'', Str ''transform''),
          (''transition'', Str ''transform .3s ease-in-out'')],
       reverseEndIcon = [(''transform'', Str ''rotate(180deg)'')],
       paper =
         [(''borderRadius'', Str ''0.5rem''),
          (''border'',
             Str (if dark then ''1px solid '' @ primary_contrastText theme else ''none'')),
          (''backgroundColor'',
             Str (if dark then text_primary theme else themeBackground_normal theme)),
          (''marginTop'', Str ''0.5rem'')],
       list = [(''padding'', Num 0)],
       listItem =
         [(''height'', Str ''4rem''),
          (''padding'', Str ''0 1.2rem''),
          (''gap'', Str ''0.8rem'')],
       listItemIcon =
         [(''minWidth'', Str ''unset !important''),
          (''color'', Str (if dark then primary_contrastText theme else ''#473835''))],
       listItemText =
         [(''fontSize'', Str ''1.6rem''),
          (''cursor'', Str ''pointer''),
          (''color'', Str (if dark then primary_contrastText theme else ''#473835''))] \<rparr>"

text \<open>
  \<open>cx(a, b)\<close> joins the classes that are given; \<open>open && c\<close> is \<open>c\<close> when the menu is
  open and no class otherwise.
\<close>

definition cx :: "css \<Rightarrow> css option \<Rightarrow> css list" where
  "cx a b = a # (case b of None \<Rightarrow> [] | Some c \<Rightarrow> [c])"

subsection \<open>State and collaborators\<close>

text \<open>
  The wallet session is what \<open>useRainbowContext()\<close> hands out for reading; it belongs to
  the wallet context. \<open>undefined\<close> is \<open>None\<close>.
\<close>

record session =
  walletCurrentAddress :: "string option"
  chainId :: "int option"

text \<open>
  A DOM element, by identity. During the dispatch of a click, \<open>e.currentTarget\<close> is the
  element the handler is attached to, so it is an element and never \<open>null\<close>.
\<close>

datatype HTMLElement = HTMLElement nat

record click_event =
  currentTarget :: HTMLElement

text \<open>
  The world a handler runs in: the wallet session, the state of the browser (clipboard,
  windows; of a type \<open>'b\<close> left open), and the two \<open>useState\<close> cells of the component.
\<close>

record 'b world =
  rainbow :: session
  browser :: 'b
  anchorEl :: "HTMLElement option"
  copied :: bool

text \<open>
  How a call of a collaborator ends: it returns what it has to say about success (the
  boolean of \<open>copy\<close>, the window or \<open>null\<close> of \<open>window.open\<close>, the settled request of
  \<open>connect\<close> and \<open>disconnect\<close>), or it throws.
\<close>

datatype outcome = Succeeded | Failed

datatype error = Error string

datatype completion = Returns outcome | Throws error

definition thrown :: "completion \<Rightarrow> error option" where
  "thrown c = (case c of Returns _ \<Rightarrow> None | Throws e \<Rightarrow> Some e)"

datatype chain_key = L1 | L2

text \<open>
  Everything the component imports and calls. An effectful collaborator takes the state
  it owns and gives how the call ends with the state it leaves (a call that throws may
  have changed that state before). \<open>CHAIN_ID\<close>, \<open>EXPLORER_URL\<close>,
  \<open>generateExploreLink\<close>, \<open>truncateAddress\<close> and the theme come from modules outside the
  given sources and are parameters as well.
\<close>

record 'b externals =
  connect :: "session \<Rightarrow> completion \<times> session"
  disconnect :: "session \<Rightarrow> completion \<times> session"
  copy :: "string option \<Rightarrow> 'b \<Rightarrow> completion \<times> 'b"
  window_open :: "string \<Rightarrow> 'b \<Rightarrow> completion \<times> 'b"
  generateExploreLink :: "string \<Rightarrow> string option \<Rightarrow> string \<Rightarrow> string"
  truncateAddress :: "string option \<Rightarrow> string"
  CHAIN_ID_L1 :: int
  EXPLORER_URL :: "chain_key \<Rightarrow> string"
  theme :: palette

record props =
  sx :: css
  dark :: bool

subsection \<open>Handlers\<close>

text \<open>
  The source's \<open>open\<close>, that is \<open>Boolean(anchorEl)\<close>: an element is truthy, \<open>null\<close> is
  not.
\<close>

definition isOpen :: "HTMLElement option \<Rightarrow> bool" where
  "isOpen el = (case el of None \<Rightarrow> False | Some _ \<Rightarrow> True)"

text \<open>Truthiness of a chain id: \<open>undefined\<close> and \<open>0\<close> are falsy.\<close>

definition truthy :: "int option \<Rightarrow> bool" where
  "truthy c = (case c of None \<Rightarrow> False | Some n \<Rightarrow> n \<noteq> 0)"

text \<open>
  A function of the component runs on the world and gives the exception it ends with, if
  any, and the world it leaves. The component has no \<open>try\<close>: an exception thrown by a
  call ends the function at that call, with what was done before it kept.
\<close>

type_synonym 'b handler = "'b world \<Rightarrow> error option \<times> 'b world"

definition handleClick :: "click_event \<Rightarrow> 'b handler" where
  "handleClick e w = (None, w\<lparr>anchorEl := Some (currentTarget e)\<rparr>)"

definition handleClose :: "'b handler" where
  "handleClose w = (None, w\<lparr>anchorEl := None, copied := False\<rparr>)"

text \<open>
  \<open>viewScan\<close> and \<open>copyAddress\<close> are closures over the address and the chain id of the
  render that created them (their \<open>useCallback\<close> dependencies). The dependency lists of
  \<open>useCallback\<close> and \<open>useMemo\<close> name every value the memoised code reads that can
  change, so a memoised value is the one a fresh evaluation gives.
\<close>

definition viewScan :: "'b externals \<Rightarrow> string option \<Rightarrow> int option \<Rightarrow> 'b handler" where
  "viewScan ext addr cid w =
     (let r = window_open ext
                (generateExploreLink ext
                   (EXPLORER_URL ext (if cid = Some (CHAIN_ID_L1 ext) then L1 else L2))
                   addr
                   ''address'')
                (browser w)
      in (thrown (fst r), w\<lparr>browser := snd r\<rparr>))"

definition copyAddress :: "'b externals \<Rightarrow> string option \<Rightarrow> 'b handler" where
  "copyAddress ext addr w =
     (let r = copy ext addr (browser w)
      in case fst r of
           Throws e \<Rightarrow> (Some e, w\<lparr>browser := snd r\<rparr>)
         | Returns _ \<Rightarrow> (None, w\<lparr>browser := snd r, copied := True\<rparr>))"

datatype svg = CopySuccessSvg | BlockSvg | CopySvg | DisconnectSvg | DownTriangleSvg

record 'b operation =
  icon :: svg
  label :: string
  action :: "'b handler"

text \<open>
  The arrow function of the third operation: \<open>disconnect(); handleClose();\<close>.
\<close>

definition disconnectAction :: "'b externals \<Rightarrow> 'b handler" where
  "disconnectAction ext w =
     (let r = disconnect ext (rainbow w)
      in case fst r of
           Throws e \<Rightarrow> (Some e, w\<lparr>rainbow := snd r\<rparr>)
         | Returns _ \<Rightarrow> handleClose (w\<lparr>rainbow := snd r\<rparr>))"

definition operations ::
  "'b externals \<Rightarrow> string option \<Rightarrow> int option \<Rightarrow> bool \<Rightarrow> 'b operation list" where
  "operations ext addr cid copied_now =
     [\<lparr> icon = BlockSvg, label = ''Block explorer'', action = viewScan ext addr cid \<rparr>,
      \<lparr> icon = (if copied_now then CopySuccessSvg else CopySvg),
        label = ''Copy address'',
        action = copyAddress ext addr \<rparr>,
      \<lparr> icon = DisconnectSvg,
        label = ''Disconnect'',
        action = disconnectAction ext \<rparr>]"

subsection \<open>Rendering\<close>

text \<open>
  A menu item with its icon (\<open>ListItemIcon\<close> around an \<open>SvgIcon\<close>) and its text
  (\<open>ListItemText\<close>).
\<close>

record 'b MenuItem =
  key :: string
  rootClass :: css
  onClick :: "'b handler"
  iconClass :: css
  iconSx :: css
  iconComponent :: svg
  textClass :: css
  itemText :: string

text \<open>
  The elements the component returns. \<open>ButtonBase\<close>: root class, \<open>sx\<close>, \<open>onClick\<close>, the
  text, and the class list and component of the icon after it. \<open>Button\<close>: variant,
  \<open>onClick\<close>, text. \<open>Menu\<close>: \<open>anchorEl\<close>, \<open>open\<close>, \<open>onClose\<close>, the paper and list
  classes, the items (its transition and origins are constants and left out).
\<close>

datatype 'b element =
    ButtonBase css css "click_event \<Rightarrow> 'b handler" string "css list" svg
  | Button string "'b handler" string
  | Menu "HTMLElement option" bool "'b handler" css css "'b MenuItem list"

text \<open>\<open>onClick={connect}\<close>: the click calls \<open>connect\<close> and nothing else.\<close>

definition onConnect :: "'b externals \<Rightarrow> 'b handler" where
  "onConnect ext w =
     (let r = connect ext (rainbow w) in (thrown (fst r), w\<lparr>rainbow := snd r\<rparr>))"

definition WalletDropdown :: "props \<Rightarrow> 'b externals \<Rightarrow> 'b world \<Rightarrow> 'b element list" where
  "WalletDropdown p ext w =
     (let cls = useStyles (theme ext) (dark p);
          addr = walletCurrentAddress (rainbow w);
          cid = chainId (rainbow w);
          opn = isOpen (anchorEl w)
      in [if truthy cid
          then ButtonBase (button cls) (sx p) handleClick (truncateAddress ext addr)
                 (cx (endIcon cls) (if opn then Some (reverseEndIcon cls) else None))
                 DownTriangleSvg
          else Button ''contained'' (onConnect ext) ''Connect Wallet'',
          Menu (anchorEl w) opn handleClose (paper cls) (list cls)
            (map (\<lambda>op. \<lparr> key = label op,
                         rootClass = listItem cls,
                         onClick = action op,
                         iconClass = listItemIcon cls,
                         iconSx = [(''fontSize'', Str ''1.6rem'')],
                         iconComponent = icon op,
                         textClass = listItemText cls,
                         itemText = label op \<rparr>)
               (operations ext addr cid (copied w)))])"

subsection \<open>Events\<close>

text \<open>
  What can happen to the rendered elements: a click on the address button, a click on
  the Connect Wallet button, a click on the \<open>i\<close>-th menu item, a dismissal of the menu
  (a click outside it or Escape, for which the menu calls \<open>onClose\<close>). No handler tests
  \<open>open\<close>, and the menu keeps its items mounted while it fades out after \<open>open\<close> has
  turned false (\<open>TransitionComponent={Fade}\<close>): an item takes a click, and the menu may
  call \<open>onClose\<close>, whatever the anchor is.
\<close>

datatype event = ClickTrigger click_event | ClickConnect | ClickItem nat | Dismiss

fun deliver :: "'b element \<Rightarrow> event \<Rightarrow> 'b handler option" where
  "deliver (ButtonBase _ _ h _ _ _) (ClickTrigger e) = Some (h e)"
| "deliver (Button _ h _) ClickConnect = Some h"
| "deliver (Menu _ _ _ _ _ items) (ClickItem i) =
     (if i < length items then Some (onClick (items ! i)) else None)"
| "deliver (Menu _ _ h _ _ _) Dismiss = Some h"
| "deliver _ _ = None"

text \<open>
  An event goes to the first rendered element that takes it; the handler found there
  runs on the current world. \<open>None\<close>: no rendered element takes the event.
  \<open>dispatch\<close> gives how the handler ends and the world it leaves, \<open>fire\<close> the world
  alone, \<open>uncaught\<close> the exception that leaves the handler.
\<close>

definition dispatch ::
  "props \<Rightarrow> 'b externals \<Rightarrow> event \<Rightarrow> 'b world \<Rightarrow> (error option \<times> 'b world) option" where
  "dispatch p ext ev w =
     (case List.map_filter (\<lambda>el. deliver el ev) (WalletDropdown p ext w) of
        [] \<Rightarrow> None
      | h # _ \<Rightarrow> Some (h w))"

definition fire :: "props \<Rightarrow> 'b externals \<Rightarrow> event \<Rightarrow> 'b world \<Rightarrow> 'b world option" where
  "fire p ext ev w = map_option snd (dispatch p ext ev w)"

definition uncaught :: "props \<Rightarrow> 'b externals \<Rightarrow> event \<Rightarrow> 'b world \<Rightarrow> error option" where
  "uncaught p ext ev w = (case dispatch p ext ev w of None \<Rightarrow> None | Some r \<Rightarrow> fst r)"

text \<open>
  The states the component can be in: it starts with \<open>useState(null)\<close> and
  \<open>useState(false)\<close>, handles events, and in between the wallet context and the browser
  may change what they own.
\<close>

inductive reachable :: "props \<Rightarrow> 'b externals \<Rightarrow> 'b world \<Rightarrow> bool"
  for p :: props and ext :: "'b externals" where
  initial: "reachable p ext \<lparr> rainbow = r, browser = b, anchorEl = None, copied = False \<rparr>"
| handled: "reachable p ext w \<Longrightarrow> fire p ext ev w = Some w' \<Longrightarrow> reachable p ext w'"
| outside: "reachable p ext w \<Longrightarrow> reachable p ext (w\<lparr>rainbow := r, browser := b\<rparr>)"

text \<open>
  The same, for a user who clicks menu items only while the menu is open (and never
  while it fades out).
\<close>

definition item_only_while_open :: "event \<Rightarrow> 'b world \<Rightarrow> bool" where
  "item_only_while_open ev w = (case ev of ClickItem _ \<Rightarrow> isOpen (anchorEl w) | _ \<Rightarrow> True)"

inductive reachable_items_open :: "props \<Rightarrow> 'b externals \<Rightarrow> 'b world \<Rightarrow> bool"
  for p :: props and ext :: "'b externals" where
  initial_open:
    "reachable_items_open p ext \<lparr> rainbow = r, browser = b, anchorEl = None, copied = False \<rparr>"
| handled_open:
    "reachable_items_open p ext w \<Longrightarrow> item_only_while_open ev w \<Longrightarrow>
     fire p ext ev w = Some w' \<Longrightarrow> reachable_items_open p ext w'"
| outside_open:
    "reachable_items_open p ext w \<Longrightarrow> reachable_items_open p ext (w\<lparr>rainbow := r, browser := b\<rparr>)"

definition open_menus :: "'b element list \<Rightarrow> 'b element list" where
  "open_menus els =
     filter (\<lambda>el. case el of Menu _ opn _ _ _ _ \<Rightarrow> opn | _ \<Rightarrow> False) els"

definition menu_texts :: "'b element list \<Rightarrow> string list" where
  "menu_texts els =
     concat (map (\<lambda>el. case el of Menu _ _ _ _ _ items \<Rightarrow> map itemText items | _ \<Rightarrow> []) els)"

definition menu_actions :: "'b element list \<Rightarrow> 'b handler list" where
  "menu_actions els =
     concat (map (\<lambda>el. case el of Menu _ _ _ _ _ items \<Rightarrow> map onClick items | _ \<Rightarrow> []) els)"


subsection \<open>Sample collaborators\<close>

text \<open>
  Concrete collaborators on which the theorems below are instantiated. The browser state
  is the list of what reached it. One set of collaborators succeeds; the second returns a
  failure from every call and changes nothing; the third throws at every call and changes
  nothing.
\<close>

definition demo_palette :: palette where
  "demo_palette =
     \<lparr> primary_contrastText = ''#FFF8F3'',
       themeBackground_normal = ''#FFF0DD'',
       text_primary = ''#101010'' \<rparr>"

definition demo_address :: string where
  "demo_address = ''0x00000000000000000000000000000000000000aa''"

definition demo_externals :: "string list externals" where
  "demo_externals =
     \<lparr> connect = (\<lambda>s. (Returns Succeeded, \<lparr> walletCurrentAddress = Some demo_address, chainId = Some 534352 \<rparr>)),
       disconnect = (\<lambda>s. (Returns Succeeded, \<lparr> walletCurrentAddress = None, chainId = None \<rparr>)),
       copy = (\<lambda>a b. (Returns Succeeded, b @ [''copy '' @ (case a of None \<Rightarrow> ''undefined'' | Some s \<Rightarrow> s)])),
       window_open = (\<lambda>u b. (Returns Succeeded, b @ [''open '' @ u])),
       generateExploreLink =
         (\<lambda>u a k. u @ ''/'' @ k @ ''/'' @ (case a of None \<Rightarrow> ''undefined'' | Some s \<Rightarrow> s)),
       truncateAddress =
         (\<lambda>a. case a of None \<Rightarrow> ''-'' | Some s \<Rightarrow> take 6 s @ ''...'' @ drop 38 s),
       CHAIN_ID_L1 = 1,
       EXPLORER_URL = (\<lambda>k. case k of L1 \<Rightarrow> ''https://etherscan.io'' | L2 \<Rightarrow> ''https://scrollscan.com''),
       theme = demo_palette \<rparr>"

definition failing_externals :: "string list externals" where
  "failing_externals =
     demo_externals
       \<lparr> connect := (\<lambda>s. (Returns Failed, s)),
         disconnect := (\<lambda>s. (Returns Failed, s)),
         copy := (\<lambda>a b. (Returns Failed, b)),
         window_open := (\<lambda>u b. (Returns Failed, b)) \<rparr>"

definition throwing_externals :: "string list externals" where
  "throwing_externals =
     demo_externals
       \<lparr> connect := (\<lambda>s. (Throws (Error ''connect''), s)),
         disconnect := (\<lambda>s. (Throws (Error ''disconnect''), s)),
         copy := (\<lambda>a b. (Throws (Error ''copy''), b)),
         window_open := (\<lambda>u b. (Throws (Error ''open''), b)) \<rparr>"

definition demo_props :: props where
  "demo_props = \<lparr> sx = [], dark = False \<rparr>"

definition dark_props :: props where
  "dark_props = \<lparr> sx = [(''marginLeft'', Str ''1rem'')], dark = True \<rparr>"

definition connected :: session where
  "connected = \<lparr> walletCurrentAddress = Some demo_address, chainId = Some 534352 \<rparr>"

definition closed_world :: "string list world" where
  "closed_world = \<lparr> rainbow = connected, browser = [], anchorEl = None, copied = False \<rparr>"

definition open_world :: "string list world" where
  "open_world = closed_world\<lparr>anchorEl := Some (HTMLElement 1)\<rparr>"

definition copied_world :: "string list world" where
  "copied_world = open_world\<lparr>browser := [''copy '' @ demo_address], copied := True\<rparr>"

text \<open>The menu closed, with the copied flag set.\<close>

definition closed_copied_world :: "string list world" where
  "closed_copied_world = closed_world\<lparr>browser := [''copy '' @ demo_address], copied := True\<rparr>"

definition disconnected :: session where
  "disconnected = \<lparr> walletCurrentAddress = None, chainId = None \<rparr>"

definition no_address :: "string list world" where
  "no_address = closed_world\<lparr>rainbow := \<lparr> walletCurrentAddress = None, chainId = Some 534352 \<rparr>\<rparr>"

definition no_chain :: "string list world" where
  "no_chain = closed_world\<lparr>rainbow := \<lparr> walletCurrentAddress = Some demo_address, chainId = None \<rparr>\<rparr>"

section \<open>Properties of the layout constants\<close>

lemmas layout_defs =
  LAYOUT_HEADER_HEIGHT_def MOBILE_LAYOUT_HEADER_HEIGHT_def LAYOUT_FOOTER_HEIGHT_def
  MOBILE_LAYOUT_FOOTER_HEIGHT_def FULL_SCREEN_HEIGHT_def MOBILE_FULL_SCREEN_HEIGHT_def

text \<open>
  Claim C10. \<open>PAGE_MIN_HEIGHT\<close> has two positions, both hold the mobile full-screen
  height string, and the desktop \<open>FULL_SCREEN_HEIGHT\<close> string (a different string)
  is not an element of it.
\<close>

theorem PAGE_MIN_HEIGHT_mobile_only:
  "length PAGE_MIN_HEIGHT = 2
   \<and> PAGE_MIN_HEIGHT ! 0 = MOBILE_FULL_SCREEN_HEIGHT
   \<and> PAGE_MIN_HEIGHT ! 1 = MOBILE_FULL_SCREEN_HEIGHT
   \<and> PAGE_MIN_HEIGHT ! 0 = PAGE_MIN_HEIGHT ! 1
   \<and> FULL_SCREEN_HEIGHT \<notin> set PAGE_MIN_HEIGHT
   \<and> MOBILE_FULL_SCREEN_HEIGHT = ''calc(100vh - 64px - 132.5px)''
   \<and> FULL_SCREEN_HEIGHT = ''calc(100vh - 75px - 143px)''"
  by (simp add: PAGE_MIN_HEIGHT_def layout_defs)

section \<open>Properties of the wallet dropdown\<close>

subsection \<open>What each event does\<close>

text \<open>
  The rendered elements bind the handlers as follows; every later proof goes through
  these equations.
\<close>

lemma render_ClickItem:
  "List.map_filter (\<lambda>el. deliver el (ClickItem i)) (WalletDropdown p ext w) =
     (if i < 3
      then [action (operations ext (walletCurrentAddress (rainbow w)) (chainId (rainbow w)) (copied w) ! i)]
      else [])"
  by (auto simp: WalletDropdown_def Let_def List.map_filter_simps operations_def nth_Cons'
      less_Suc_eq numeral_3_eq_3)

lemma dispatch_ClickItem:
  "dispatch p ext (ClickItem i) w =
     (if i = 0 then
        Some (viewScan ext (walletCurrentAddress (rainbow w)) (chainId (rainbow w)) w)
      else if i = 1 then Some (copyAddress ext (walletCurrentAddress (rainbow w)) w)
      else if i = 2 then Some (disconnectAction ext w)
      else None)"
  by (simp add: dispatch_def render_ClickItem) (simp add: operations_def)

lemma dispatch_Dismiss: "dispatch p ext Dismiss w = Some (handleClose w)"
  by (simp add: dispatch_def WalletDropdown_def Let_def List.map_filter_simps)

lemma dispatch_ClickTrigger:
  "dispatch p ext (ClickTrigger e) w =
     (if truthy (chainId (rainbow w)) then Some (handleClick e w) else None)"
  by (simp add: dispatch_def WalletDropdown_def Let_def List.map_filter_simps)

lemma dispatch_ClickConnect:
  "dispatch p ext ClickConnect w =
     (if truthy (chainId (rainbow w)) then None else Some (onConnect ext w))"
  by (simp add: dispatch_def WalletDropdown_def Let_def List.map_filter_simps)

lemmas dispatch_simps =
  dispatch_ClickItem dispatch_Dismiss dispatch_ClickTrigger dispatch_ClickConnect

lemma fire_ClickItem:
  "fire p ext (ClickItem i) w =
     (if i = 0 then
        Some (snd (viewScan ext (walletCurrentAddress (rainbow w)) (chainId (rainbow w)) w))
      else if i = 1 then Some (snd (copyAddress ext (walletCurrentAddress (rainbow w)) w))
      else if i = 2 then Some (snd (disconnectAction ext w))
      else None)"
  by (simp add: fire_def dispatch_simps)

lemma fire_Dismiss: "fire p ext Dismiss w = Some (snd (handleClose w))"
  by (simp add: fire_def dispatch_simps)

lemma fire_ClickTrigger:
  "fire p ext (ClickTrigger e) w =
     (if truthy (chainId (rainbow w)) then Some (snd (handleClick e w)) else None)"
  by (simp add: fire_def dispatch_simps)

lemma fire_ClickConnect:
  "fire p ext ClickConnect w =
     (if truthy (chainId (rainbow w)) then None
      else Some (w\<lparr>rainbow := snd (connect ext (rainbow w))\<rparr>))"
  by (simp add: fire_def dispatch_simps onConnect_def Let_def)

lemmas fire_simps = fire_ClickItem fire_Dismiss fire_ClickTrigger fire_ClickConnect

lemma operations_labels:
  "map label (operations ext addr cid c) = [''Block explorer'', ''Copy address'', ''Disconnect'']"
  by (simp add: operations_def)

lemma thrown_simps:
  "thrown (Returns r) = None" "thrown (Throws e) = Some e"
  by (simp_all add: thrown_def)

lemma thrown_None_iff: "thrown c = None \<longleftrightarrow> (\<exists>r. c = Returns r)"
  by (cases c) (simp_all add: thrown_def)




lemma disconnectAction_returns:
  "fst (disconnect ext (rainbow w)) = Returns r \<Longrightarrow>
   disconnectAction ext w =
     (None, w\<lparr>rainbow := snd (disconnect ext (rainbow w)), anchorEl := None, copied := False\<rparr>)"
  by (simp add: disconnectAction_def handleClose_def Let_def)

lemma disconnectAction_throws:
  "fst (disconnect ext (rainbow w)) = Throws e \<Longrightarrow>
   disconnectAction ext w = (Some e, w\<lparr>rainbow := snd (disconnect ext (rainbow w))\<rparr>)"
  by (simp add: disconnectAction_def Let_def)

lemma handler_simps:
  "anchorEl (snd (viewScan ext addr cid w)) = anchorEl w"
  "copied (snd (viewScan ext addr cid w)) = copied w"
  "rainbow (snd (viewScan ext addr cid w)) = rainbow w"
  "anchorEl (snd (copyAddress ext addr w)) = anchorEl w"
  "copied (snd (copyAddress ext addr w)) =
     (copied w \<or> thrown (fst (copy ext addr (browser w))) = None)"
  "rainbow (snd (copyAddress ext addr w)) = rainbow w"
  "browser (snd (copyAddress ext addr w)) = snd (copy ext addr (browser w))"
  "anchorEl (snd (disconnectAction ext w)) =
     (if thrown (fst (disconnect ext (rainbow w))) = None then None else anchorEl w)"
  "copied (snd (disconnectAction ext w)) =
     (copied w \<and> thrown (fst (disconnect ext (rainbow w))) \<noteq> None)"
  "rainbow (snd (disconnectAction ext w)) = snd (disconnect ext (rainbow w))"
  "browser (snd (disconnectAction ext w)) = browser w"
  "handleClose w = (None, w\<lparr>anchorEl := None, copied := False\<rparr>)"
  "handleClick e w = (None, w\<lparr>anchorEl := Some (currentTarget e)\<rparr>)"
  by (simp_all add: viewScan_def copyAddress_def disconnectAction_def handleClose_def
      handleClick_def Let_def thrown_def split: completion.splits)

lemma isOpen_iff: "isOpen el \<longleftrightarrow> el \<noteq> None"
  by (cases el) (simp_all add: isOpen_def)

lemmas sample_defs =
  demo_externals_def failing_externals_def throwing_externals_def demo_props_def dark_props_def
  connected_def closed_world_def open_world_def copied_world_def closed_copied_world_def
  disconnected_def demo_palette_def demo_address_def

subsection \<open>Which menu actions close the menu\<close>

text \<open>
  Claim C1 says that each of the three menu actions, invoked while the menu is open,
  leaves the menu closed. On the code only the third can: the handler of Disconnect
  calls \<open>handleClose\<close>, while \<open>viewScan\<close> and \<open>copyAddress\<close> never touch \<open>anchorEl\<close>.
  With the menu open on element 1 and collaborators that succeed, a click on Copy address
  or on Block explorer leaves the anchor at element 1.
\<close>

theorem menu_stays_open_after_copy_and_explorer:
  "anchorEl open_world = Some (HTMLElement 1)
   \<and> map_option anchorEl (fire demo_props demo_externals (ClickItem 1) open_world)
       = Some (Some (HTMLElement 1))
   \<and> map_option anchorEl (fire demo_props demo_externals (ClickItem 0) open_world)
       = Some (Some (HTMLElement 1))"
  by (simp add: fire_simps handler_simps open_world_def closed_world_def)

text \<open>
  Claim C1, as the code has it. While the menu is open, the three items are Block
  explorer, Copy address and Disconnect. Block explorer leaves the anchor and the copied
  flag as they are. Copy address leaves the anchor as it is; the copied flag is set when
  \<open>copy\<close> returns and stays as it was when \<open>copy\<close> throws. Disconnect calls
  \<open>disconnect()\<close>, so that the session is the one this call leaves; when the call
  returns, \<open>handleClose\<close> follows and resets the anchor to \<open>null\<close> and the copied flag to
  false; when it throws, \<open>handleClose\<close> is skipped and the anchor and the copied flag stay
  as they were.
\<close>

theorem only_disconnect_closes_menu:
  assumes "isOpen (anchorEl w)"
  shows "map label (operations ext (walletCurrentAddress (rainbow w)) (chainId (rainbow w)) (copied w))
           = [''Block explorer'', ''Copy address'', ''Disconnect'']
         \<and> (\<exists>w'. fire p ext (ClickItem 0) w = Some w' \<and> anchorEl w' = anchorEl w
                  \<and> copied w' = copied w)
         \<and> (\<exists>w'. fire p ext (ClickItem 1) w = Some w' \<and> anchorEl w' = anchorEl w
                  \<and> copied w' =
                      (copied w \<or>
                       thrown (fst (copy ext (walletCurrentAddress (rainbow w)) (browser w))) = None))
         \<and> (thrown (fst (disconnect ext (rainbow w))) = None \<longrightarrow>
              fire p ext (ClickItem 2) w =
                Some (w\<lparr>rainbow := snd (disconnect ext (rainbow w)), anchorEl := None,
                        copied := False\<rparr>))
         \<and> (thrown (fst (disconnect ext (rainbow w))) \<noteq> None \<longrightarrow>
              fire p ext (ClickItem 2) w = Some (w\<lparr>rainbow := snd (disconnect ext (rainbow w))\<rparr>))"
proof (intro conjI impI)
  show "map label (operations ext (walletCurrentAddress (rainbow w)) (chainId (rainbow w)) (copied w))
      = [''Block explorer'', ''Copy address'', ''Disconnect'']"
    by (rule operations_labels)
next
  show "\<exists>w'. fire p ext (ClickItem 0) w = Some w' \<and> anchorEl w' = anchorEl w \<and> copied w' = copied w"
    by (simp add: fire_simps handler_simps)
next
  show "\<exists>w'. fire p ext (ClickItem 1) w = Some w' \<and> anchorEl w' = anchorEl w
      \<and> copied w' =
          (copied w \<or> thrown (fst (copy ext (walletCurrentAddress (rainbow w)) (browser w))) = None)"
    by (simp add: fire_simps handler_simps)
next
  assume "thrown (fst (disconnect ext (rainbow w))) = None"
  then obtain r where "fst (disconnect ext (rainbow w)) = Returns r"
    by (auto simp: thrown_None_iff)
  then show "fire p ext (ClickItem 2) w =
      Some (w\<lparr>rainbow := snd (disconnect ext (rainbow w)), anchorEl := None, copied := False\<rparr>)"
    by (simp add: fire_simps disconnectAction_returns)
next
  assume "thrown (fst (disconnect ext (rainbow w))) \<noteq> None"
  then obtain e where "fst (disconnect ext (rainbow w)) = Throws e"
    by (cases "fst (disconnect ext (rainbow w))") (simp_all add: thrown_def)
  then show "fire p ext (ClickItem 2) w = Some (w\<lparr>rainbow := snd (disconnect ext (rainbow w))\<rparr>)"
    by (simp add: fire_simps disconnectAction_throws)
qed

theorem only_disconnect_closes_menu_witness:
  "isOpen (anchorEl open_world)
   \<and> thrown (fst (disconnect demo_externals (rainbow open_world))) = None
   \<and> fire demo_props demo_externals (ClickItem 2) open_world
       = Some (closed_world\<lparr>rainbow := disconnected\<rparr>)
   \<and> thrown (fst (disconnect throwing_externals (rainbow open_world))) \<noteq> None
   \<and> fire demo_props throwing_externals (ClickItem 2) open_world = Some open_world
   \<and> (\<exists>w'. fire demo_props demo_externals (ClickItem 0) open_world = Some w'
           \<and> anchorEl w' = anchorEl open_world \<and> copied w' = copied open_world)
   \<and> (\<exists>w'. fire demo_props demo_externals (ClickItem 1) open_world = Some w'
           \<and> anchorEl w' = anchorEl open_world \<and> copied w')
   \<and> (\<exists>w'. fire demo_props throwing_externals (ClickItem 1) open_world = Some w'
           \<and> anchorEl w' = anchorEl open_world \<and> \<not> copied w')"
proof -
  have h: "isOpen (anchorEl open_world)"
    by (simp add: isOpen_def open_world_def)
  have d: "disconnect demo_externals (rainbow open_world) = (Returns Succeeded, disconnected)"
    "disconnect throwing_externals (rainbow open_world)
       = (Throws (Error ''disconnect''), rainbow open_world)"
    "fst (copy demo_externals (walletCurrentAddress (rainbow open_world)) (browser open_world))
       = Returns Succeeded"
    "fst (copy throwing_externals (walletCurrentAddress (rainbow open_world)) (browser open_world))
       = Throws (Error ''copy'')"
    by (simp_all add: demo_externals_def throwing_externals_def disconnected_def)
  have w: "open_world\<lparr>rainbow := disconnected, anchorEl := None, copied := False\<rparr>
      = closed_world\<lparr>rainbow := disconnected\<rparr>"
    "open_world\<lparr>rainbow := rainbow open_world\<rparr> = open_world"
    "\<not> copied open_world"
    by (simp_all add: open_world_def closed_world_def)
  from only_disconnect_closes_menu [OF h, of demo_externals demo_props]
    only_disconnect_closes_menu [OF h, of throwing_externals demo_props] h d w
  show ?thesis by (simp add: thrown_simps)
qed

subsection \<open>The copied flag\<close>









subsection \<open>Opening the menu\<close>

lemma open_menus_render:
  "open_menus (WalletDropdown p ext w) =
     (if isOpen (anchorEl w) then [WalletDropdown p ext w ! 1] else [])"
  by (simp add: open_menus_def WalletDropdown_def Let_def)

text \<open>
  Claim C3. In a state with the anchor \<open>null\<close> and the address button rendered, no menu
  is open; a click on the button runs \<open>handleClick\<close>, which ends without an exception
  and after which \<open>open\<close> is true and exactly one rendered menu is open. In every state
  \<open>open\<close> is true exactly when the anchor is not \<open>null\<close>, and so is the rendered menu.
\<close>

theorem trigger_click_opens_the_menu:
  "(anchorEl w = None \<and> truthy (chainId (rainbow w)) \<longrightarrow>
      open_menus (WalletDropdown p ext w) = []
      \<and> fire p ext (ClickTrigger e) w = Some (snd (handleClick e w))
      \<and> uncaught p ext (ClickTrigger e) w = None
      \<and> isOpen (anchorEl (snd (handleClick e w)))
      \<and> length (open_menus (WalletDropdown p ext (snd (handleClick e w)))) = 1)
   \<and> (isOpen (anchorEl w) \<longleftrightarrow> anchorEl w \<noteq> None)
   \<and> length (open_menus (WalletDropdown p ext w)) = (if anchorEl w \<noteq> None then 1 else 0)"
  by (simp add: open_menus_render fire_simps uncaught_def dispatch_simps handler_simps isOpen_iff)

theorem trigger_click_opens_the_menu_witness:
  "anchorEl closed_world = None
   \<and> truthy (chainId (rainbow closed_world))
   \<and> open_menus (WalletDropdown demo_props demo_externals closed_world) = []
   \<and> fire demo_props demo_externals (ClickTrigger \<lparr>currentTarget = HTMLElement 1\<rparr>) closed_world
       = Some open_world
   \<and> isOpen (anchorEl open_world)
   \<and> length (open_menus (WalletDropdown demo_props demo_externals open_world)) = 1"
proof -
  have h: "anchorEl closed_world = None" "truthy (chainId (rainbow closed_world))"
    by (simp_all add: closed_world_def connected_def truthy_def)
  have e: "snd (handleClick \<lparr>currentTarget = HTMLElement 1\<rparr> closed_world) = open_world"
    by (simp add: handleClick_def open_world_def)
  from trigger_click_opens_the_menu [of closed_world demo_props demo_externals
      "\<lparr>currentTarget = HTMLElement 1\<rparr>"] h e
  show ?thesis by simp
qed

subsection \<open>The list of operations\<close>

lemma menu_texts_render:
  "menu_texts (WalletDropdown p ext w) =
     map label (operations ext (walletCurrentAddress (rainbow w)) (chainId (rainbow w)) (copied w))"
  by (simp add: menu_texts_def WalletDropdown_def Let_def comp_def)

lemma menu_actions_render:
  "menu_actions (WalletDropdown p ext w) =
     map action (operations ext (walletCurrentAddress (rainbow w)) (chainId (rainbow w)) (copied w))"
  by (simp add: menu_actions_def WalletDropdown_def Let_def comp_def)

text \<open>
  Claim C4. Whatever the collaborators, the address, the chain id and the copied flag,
  \<open>operations\<close> has three entries labelled Block explorer, Copy address and Disconnect,
  in this order, bound to \<open>viewScan\<close>, \<open>copyAddress\<close> and the disconnect handler; the
  rendered menu lists these three texts and handlers for every props and every world.
\<close>

theorem three_static_operations:
  "map label (operations ext addr cid c) = [''Block explorer'', ''Copy address'', ''Disconnect'']
   \<and> map action (operations ext addr cid c) =
       [viewScan ext addr cid, copyAddress ext addr, disconnectAction ext]
   \<and> menu_texts (WalletDropdown p ext w) = [''Block explorer'', ''Copy address'', ''Disconnect'']
   \<and> menu_actions (WalletDropdown p ext w) =
       [viewScan ext (walletCurrentAddress (rainbow w)) (chainId (rainbow w)),
        copyAddress ext (walletCurrentAddress (rainbow w)),
        disconnectAction ext]"
  by (simp add: menu_texts_render menu_actions_render) (simp add: operations_def)

subsection \<open>The wallet session is only read\<close>

text \<open>
  Claim C5. After any event the component handles, the wallet session is the one before
  the event, except for a click on Connect Wallet, where it is what \<open>connect()\<close> leaves,
  and a click on Disconnect, where it is what \<open>disconnect()\<close> leaves. The browser state
  changes only through \<open>window.open\<close> (Block explorer) and \<open>copy\<close> (Copy address).
\<close>

theorem session_written_only_by_connect_and_disconnect:
  "fire p ext ev w = Some w' \<longrightarrow>
     rainbow w' =
       (case ev of
          ClickConnect \<Rightarrow> snd (connect ext (rainbow w))
        | ClickItem i \<Rightarrow> if i = 2 then snd (disconnect ext (rainbow w)) else rainbow w
        | ClickTrigger e \<Rightarrow> rainbow w
        | Dismiss \<Rightarrow> rainbow w)
     \<and> browser w' =
       (case ev of
          ClickItem i \<Rightarrow>
            if i = 0 then
              browser (snd (viewScan ext (walletCurrentAddress (rainbow w)) (chainId (rainbow w)) w))
            else if i = 1 then
              browser (snd (copyAddress ext (walletCurrentAddress (rainbow w)) w))
            else browser w
        | ClickConnect \<Rightarrow> browser w
        | ClickTrigger e \<Rightarrow> browser w
        | Dismiss \<Rightarrow> browser w)"
  by (cases ev) (auto simp: fire_simps handler_simps split: if_splits)

theorem session_written_only_by_connect_and_disconnect_witness:
  "fire demo_props demo_externals (ClickItem 2) open_world
     = Some (closed_world\<lparr>rainbow := disconnected\<rparr>)
   \<and> rainbow (closed_world\<lparr>rainbow := disconnected\<rparr>)
       = snd (disconnect demo_externals (rainbow open_world))
   \<and> browser (closed_world\<lparr>rainbow := disconnected\<rparr>) = browser open_world
   \<and> fire demo_props demo_externals (ClickItem 1) open_world = Some copied_world
   \<and> rainbow copied_world = rainbow open_world"
proof -
  have a: "fire demo_props demo_externals (ClickItem 2) open_world
      = Some (closed_world\<lparr>rainbow := disconnected\<rparr>)"
    by (simp add: fire_simps disconnectAction_def handleClose_def Let_def sample_defs)
  have b: "fire demo_props demo_externals (ClickItem 1) open_world = Some copied_world"
    by (simp add: fire_simps copyAddress_def Let_def sample_defs)
  from a b
    session_written_only_by_connect_and_disconnect [of demo_props demo_externals "ClickItem 2"
      open_world "closed_world\<lparr>rainbow := disconnected\<rparr>"]
    session_written_only_by_connect_and_disconnect [of demo_props demo_externals "ClickItem 1"
      open_world copied_world]
  show ?thesis by simp
qed

subsection \<open>Failing collaborators\<close>




subsection \<open>Props\<close>

lemma dispatch_props: "dispatch p ext ev w = dispatch p' ext ev w"
  by (cases ev) (simp_all add: dispatch_simps)

text \<open>
  Claim C7. For any two props (\<open>sx\<close> and \<open>dark\<close>), with the same collaborators and world,
  the rendered menu has the same texts and the same handlers, and every event has the
  same effect and ends the same way. (The rendered elements do differ, in their
  classes.)
\<close>

theorem props_are_presentational:
  "menu_texts (WalletDropdown p ext w) = menu_texts (WalletDropdown p' ext w)
   \<and> menu_actions (WalletDropdown p ext w) = menu_actions (WalletDropdown p' ext w)
   \<and> fire p ext ev w = fire p' ext ev w
   \<and> uncaught p ext ev w = uncaught p' ext ev w"
  using dispatch_props [of p ext ev w p']
  by (simp add: menu_texts_render menu_actions_render fire_def uncaught_def)

theorem props_are_presentational_witness:
  "WalletDropdown demo_props demo_externals closed_world
     \<noteq> WalletDropdown dark_props demo_externals closed_world
   \<and> menu_texts (WalletDropdown demo_props demo_externals closed_world)
       = menu_texts (WalletDropdown dark_props demo_externals closed_world)
   \<and> menu_actions (WalletDropdown demo_props demo_externals closed_world)
       = menu_actions (WalletDropdown dark_props demo_externals closed_world)
   \<and> fire demo_props demo_externals (ClickTrigger \<lparr>currentTarget = HTMLElement 1\<rparr>) closed_world
       = fire dark_props demo_externals (ClickTrigger \<lparr>currentTarget = HTMLElement 1\<rparr>) closed_world"
proof -
  have "WalletDropdown demo_props demo_externals closed_world
      \<noteq> WalletDropdown dark_props demo_externals closed_world"
    by (simp add: WalletDropdown_def Let_def useStyles_def truthy_def sample_defs)
  with props_are_presentational [of demo_props demo_externals closed_world dark_props
      "ClickTrigger \<lparr>currentTarget = HTMLElement 1\<rparr>"]
  show ?thesis by simp
qed

subsection \<open>The explorer link\<close>

text \<open>
  Claim C8. \<open>viewScan\<close> opens the link generated from \<open>EXPLORER_URL.L1\<close> when the chain
  id is \<open>CHAIN_ID.L1\<close> and from \<open>EXPLORER_URL.L2\<close> for every other chain id
  (\<open>undefined\<close> included), always with the wallet address and the kind \<open>address\<close>; the
  first menu item runs it on the address and chain id of the current session.
\<close>

theorem viewScan_explorer_by_chain:
  "(cid = Some (CHAIN_ID_L1 ext) \<longrightarrow>
      snd (viewScan ext addr cid w) =
        w\<lparr>browser := snd (window_open ext
                            (generateExploreLink ext (EXPLORER_URL ext L1) addr ''address'')
                            (browser w))\<rparr>)
   \<and> (cid \<noteq> Some (CHAIN_ID_L1 ext) \<longrightarrow>
      snd (viewScan ext addr cid w) =
        w\<lparr>browser := snd (window_open ext
                            (generateExploreLink ext (EXPLORER_URL ext L2) addr ''address'')
                            (browser w))\<rparr>)
   \<and> (isOpen (anchorEl w) \<longrightarrow>
      fire p ext (ClickItem 0) w =
        Some (snd (viewScan ext (walletCurrentAddress (rainbow w)) (chainId (rainbow w)) w)))"
  by (simp add: viewScan_def Let_def fire_simps)

theorem viewScan_explorer_by_chain_witness:
  "snd (viewScan demo_externals (Some demo_address) (Some 1) open_world) =
     open_world\<lparr>browser := [''open https://etherscan.io/address/'' @ demo_address]\<rparr>
   \<and> snd (viewScan demo_externals (Some demo_address) (Some 534352) open_world) =
     open_world\<lparr>browser := [''open https://scrollscan.com/address/'' @ demo_address]\<rparr>
   \<and> snd (viewScan demo_externals (Some demo_address) None open_world) =
     open_world\<lparr>browser := [''open https://scrollscan.com/address/'' @ demo_address]\<rparr>
   \<and> isOpen (anchorEl open_world)
   \<and> fire demo_props demo_externals (ClickItem 0) open_world =
     Some (open_world\<lparr>browser := [''open https://scrollscan.com/address/'' @ demo_address]\<rparr>)"
proof -
  have k: "CHAIN_ID_L1 demo_externals = 1"
    "EXPLORER_URL demo_externals L1 = ''https://etherscan.io''"
    "EXPLORER_URL demo_externals L2 = ''https://scrollscan.com''"
    "\<And>u a. generateExploreLink demo_externals u (Some a) ''address'' = u @ ''/address/'' @ a"
    "\<And>u b. window_open demo_externals u b = (Returns Succeeded, b @ [''open '' @ u])"
    by (simp_all add: demo_externals_def)
  have o: "isOpen (anchorEl open_world)" "browser open_world = []"
    "walletCurrentAddress (rainbow open_world) = Some demo_address"
    "chainId (rainbow open_world) = Some 534352"
    by (simp_all add: isOpen_def open_world_def closed_world_def connected_def)
  from k o
    viewScan_explorer_by_chain [of "Some 1" demo_externals "Some demo_address" open_world demo_props]
    viewScan_explorer_by_chain [of "Some 534352" demo_externals "Some demo_address" open_world
      demo_props]
    viewScan_explorer_by_chain [of None demo_externals "Some demo_address" open_world demo_props]
  show ?thesis by simp
qed

subsection \<open>Address button or Connect Wallet\<close>

text \<open>
  Claim C9. The first rendered element depends on the truthiness of the chain id alone.
  When it is truthy, it is the address button showing \<open>truncateAddress\<close> of the address
  (whether or not there is an address) and bound to \<open>handleClick\<close>; when it is falsy
  (\<open>undefined\<close> or 0), it is the Connect Wallet button bound to \<open>connect\<close>.
\<close>

theorem trigger_chosen_by_chainId:
  "(truthy (chainId (rainbow w)) \<longrightarrow>
      WalletDropdown p ext w ! 0 =
        ButtonBase (button (useStyles (theme ext) (dark p))) (sx p) handleClick
          (truncateAddress ext (walletCurrentAddress (rainbow w)))
          (cx (endIcon (useStyles (theme ext) (dark p)))
             (if isOpen (anchorEl w) then Some (reverseEndIcon (useStyles (theme ext) (dark p)))
              else None))
          DownTriangleSvg
      \<and> fire p ext (ClickTrigger e) w = Some (snd (handleClick e w))
      \<and> fire p ext ClickConnect w = None)
   \<and> (\<not> truthy (chainId (rainbow w)) \<longrightarrow>
      WalletDropdown p ext w ! 0 = Button ''contained'' (onConnect ext) ''Connect Wallet''
      \<and> fire p ext ClickConnect w = Some (w\<lparr>rainbow := snd (connect ext (rainbow w))\<rparr>)
      \<and> fire p ext (ClickTrigger e) w = None)
   \<and> (truthy (chainId (rainbow w)) \<longleftrightarrow>
        chainId (rainbow w) \<noteq> None \<and> chainId (rainbow w) \<noteq> Some 0)"
  by (cases "chainId (rainbow w)") (simp_all add: WalletDropdown_def Let_def fire_simps truthy_def)

theorem trigger_chosen_by_chainId_witness:
  "walletCurrentAddress (rainbow no_address) = None
   \<and> truthy (chainId (rainbow no_address))
   \<and> WalletDropdown demo_props demo_externals no_address ! 0 =
       ButtonBase (button (useStyles demo_palette False)) [] handleClick ''-''
         [endIcon (useStyles demo_palette False)] DownTriangleSvg
   \<and> walletCurrentAddress (rainbow no_chain) = Some demo_address
   \<and> \<not> truthy (chainId (rainbow no_chain))
   \<and> WalletDropdown demo_props demo_externals no_chain ! 0 =
       Button ''contained'' (onConnect demo_externals) ''Connect Wallet''
   \<and> fire demo_props demo_externals ClickConnect no_chain = Some closed_world"
proof -
  have a: "walletCurrentAddress (rainbow no_address) = None"
    "truthy (chainId (rainbow no_address))" "anchorEl no_address = None"
    by (simp_all add: no_address_def truthy_def closed_world_def)
  have b: "walletCurrentAddress (rainbow no_chain) = Some demo_address"
    "\<not> truthy (chainId (rainbow no_chain))"
    "no_chain\<lparr>rainbow := snd (connect demo_externals (rainbow no_chain))\<rparr> = closed_world"
    by (simp_all add: no_chain_def truthy_def closed_world_def connected_def demo_externals_def)
  have c: "theme demo_externals = demo_palette" "truncateAddress demo_externals None = ''-''"
    "dark demo_props = False" "sx demo_props = []"
    by (simp_all add: demo_externals_def demo_props_def)
  from a b c
    trigger_chosen_by_chainId [of no_address demo_props demo_externals
      "\<lparr>currentTarget = HTMLElement 1\<rparr>"]
    trigger_chosen_by_chainId [of no_chain demo_props demo_externals
      "\<lparr>currentTarget = HTMLElement 1\<rparr>"]
  show ?thesis by (simp add: cx_def isOpen_def)
qed

end
